theory Spec2Isabelle
  imports Complex_Main "HOL-Library.Multiset"
begin

section \<open>Data model (src/iot.py)\<close>

text \<open>
  Instants are integers counting microseconds, the resolution of Python's \<open>datetime\<close>.
  Every read of the clock (\<open>datetime.now(UTC)\<close>, \<open>datetime.utcnow()\<close>) is an explicit
  argument of the operation that performs it, one argument per read. Naive and
  timezone-aware datetimes are not distinguished: both clock functions denote the current
  UTC instant.
  \<open>Float\<close> columns are modelled by real numbers: rounding is not represented.
\<close>

type_synonym timestamp = int

definition timedelta_minutes :: "int \<Rightarrow> int" where
  "timedelta_minutes m = m * 60000000"

definition timedelta_hours :: "int \<Rightarrow> int" where
  "timedelta_hours h = h * 3600000000"

text \<open>
  Table \<open>iot_devices\<close>. \<open>id\<close> is the primary key, \<open>farm_id\<close> and \<open>device_id\<close> are declared
  \<open>nullable=False\<close>; \<open>is_online\<close>, \<open>last_seen\<close> and \<open>mqtt_topic\<close> are nullable columns.
  \<open>created_at\<close> is written by the only insert of the code and never updated.
\<close>

record IoTDevice =
  d_id :: int
  d_farm_id :: int
  d_device_id :: string
  d_is_online :: "bool option"
  d_last_seen :: "timestamp option"
  d_mqtt_topic :: "string option"
  d_created_at :: timestamp

text \<open>
  Table \<open>sensor_readings\<close>. The foreign key \<open>device_id\<close> is nullable, and so are the
  seven metrics. \<open>timestamp\<close> is written by the only insert of the code.
\<close>

record SensorReading =
  r_id :: int
  r_device_id :: "int option"
  r_timestamp :: timestamp
  r_feed_rate :: "real option"
  r_water_intake :: "real option"
  r_temperature :: "real option"
  r_humidity :: "real option"
  r_avg_weight :: "real option"
  r_ammonia_level :: "real option"
  r_lux_level :: "real option"

text \<open>
  Modelled from the spec: the \<open>farms\<close> table and \<open>farm_crud.get_farm_by_id\<close> are not among
  the sources. The spec describes the collaborator as
  \<open>verify_farm_owner(farm_id, caller_id) \<rightarrow> Farm?\<close>; a farm row carries its id and its owner.
\<close>

record Farm =
  f_id :: int
  f_owner_id :: int

text \<open>
  The session's view of the database: the three tables in insertion order, the two
  sequences that hand out primary keys, and the bound of the integers the engine behind
  the session accepts. The engine is configured outside the sources, so the bound is a
  parameter: an integer \<open>i\<close> can be bound to a statement when
  \<open>- integer_bound \<le> i < integer_bound\<close>, with \<open>integer_bound\<close> \<open>2^63\<close> under SQLite and
  \<open>2^31\<close> for an \<open>Integer\<close> column under PostgreSQL.
\<close>

record db =
  iot_devices :: "IoTDevice list"
  sensor_readings :: "SensorReading list"
  farms :: "Farm list"
  device_seq :: int
  reading_seq :: int
  integer_bound :: int

definition in_integer_range :: "db \<Rightarrow> int \<Rightarrow> bool" where
  "in_integer_range s i \<longleftrightarrow> - integer_bound s \<le> i \<and> i < integer_bound s"

text \<open>Exceptions of the code: \<open>HTTPException(status_code, detail)\<close> raised by the
  handlers, the exceptions the persistence layer can raise, and the rejection of a
  query parameter outside its \<open>Query\<close> bounds. \<open>IntegerOutOfRange\<close> is the exception of
  the driver when an integer bound to a statement is outside the engine's range
  (\<open>OverflowError\<close> under SQLite, \<open>DBAPIError\<close> under PostgreSQL). No handler catches
  \<open>IntegrityError\<close>, \<open>MultipleResultsFound\<close> or \<open>IntegerOutOfRange\<close>: the server answers
  them with status 500.\<close>

datatype error =
    HTTPException nat string
  | IntegrityError
  | MultipleResultsFound
  | IntegerOutOfRange
  | RequestValidationError

text \<open>Request bodies. \<open>SensorReadingCreate\<close> is read field by field in
  \<open>create_sensor_reading\<close>; \<open>IoTDeviceCreate\<close> in \<open>create_device\<close>.\<close>

record IoTDeviceCreate =
  dc_farm_id :: int
  dc_device_id :: string
  dc_mqtt_topic :: "string option"

record SensorReadingCreate =
  rc_device_id :: int
  rc_feed_rate :: "real option"
  rc_water_intake :: "real option"
  rc_temperature :: "real option"
  rc_humidity :: "real option"
  rc_avg_weight :: "real option"
  rc_ammonia_level :: "real option"
  rc_lux_level :: "real option"

text \<open>
  Modelled from the spec: the schema \<open>IoTDeviceUpdate\<close> is not among the sources. The spec
  gives it the partial fields \<open>{is_online?, mqtt_topic?}\<close>. For each field the outer
  \<open>None\<close> says that the request did not supply it (so \<open>model_dump(exclude_unset=True)\<close>
  omits it); \<open>Some v\<close> is a supplied value, which may itself be null.
\<close>

record IoTDeviceUpdate =
  du_is_online :: "bool option option"
  du_mqtt_topic :: "string option option"

record User =
  u_id :: int
  u_role :: string

section \<open>Query helpers\<close>

text \<open>\<open>Result.scalar_one_or_none()\<close>: no row gives \<open>None\<close>, one row gives it, more than
  one row raises.\<close>

definition scalar_one_or_none :: "'a list \<Rightarrow> error + 'a option" where
  "scalar_one_or_none rows =
     (case rows of
        [] \<Rightarrow> Inr None
      | [x] \<Rightarrow> Inr (Some x)
      | _ \<Rightarrow> Inl MultipleResultsFound)"

text \<open>\<open>ORDER BY key DESC\<close>. Rows with equal keys come in an order the engine is free to
  choose; the model keeps them in table order.\<close>

definition order_by_desc :: "('a \<Rightarrow> int) \<Rightarrow> 'a list \<Rightarrow> 'a list" where
  "order_by_desc key rows = sort_key (\<lambda>r. - key r) rows"

text \<open>Python's truth value of an optional boolean and of an optional string.\<close>

definition truthy_bool :: "bool option \<Rightarrow> bool" where
  "truthy_bool b = (b = Some True)"

definition truthy_str :: "string option \<Rightarrow> bool" where
  "truthy_str s = (case s of None \<Rightarrow> False | Some t \<Rightarrow> t \<noteq> [])"

section \<open>Device CRUD (src/iot\_crud.py)\<close>

text \<open>\<open>get_device_by_id\<close>: \<open>device_id\<close> is bound to the statement
  \<open>SELECT ... WHERE id = :device_id\<close>. The handlers pass it the path or body parameter
  \<open>device_id: int\<close>, which has no bound; the driver raises when the integer is outside
  the engine's range. Every handler that takes a device id makes this lookup first, so
  the other statements that bind the id are reached only with an id the lookup
  accepted.\<close>

definition get_device_by_id :: "db \<Rightarrow> int \<Rightarrow> error + IoTDevice option" where
  "get_device_by_id s device_id =
     (if in_integer_range s device_id
      then scalar_one_or_none (filter (\<lambda>d. d_id d = device_id) (iot_devices s))
      else Inl IntegerOutOfRange)"

definition get_device_by_device_id :: "db \<Rightarrow> string \<Rightarrow> error + IoTDevice option" where
  "get_device_by_device_id s device_id_str =
     scalar_one_or_none (filter (\<lambda>d. d_device_id d = device_id_str) (iot_devices s))"

definition get_devices_by_farm :: "db \<Rightarrow> int \<Rightarrow> nat \<Rightarrow> nat \<Rightarrow> IoTDevice list \<times> nat" where
  "get_devices_by_farm s farm_id skip limit =
     (let matching = filter (\<lambda>d. d_farm_id d = farm_id) (iot_devices s);
          total = length matching;
          devices = take limit (drop skip (order_by_desc d_created_at matching))
      in (devices, total))"

definition get_all_devices :: "db \<Rightarrow> bool \<Rightarrow> nat \<Rightarrow> nat \<Rightarrow> IoTDevice list \<times> nat" where
  "get_all_devices s online_only skip limit =
     (let matching = (if online_only
                      then filter (\<lambda>d. d_is_online d = Some True) (iot_devices s)
                      else iot_devices s);
          total = length matching;
          devices = take limit (drop skip (order_by_desc d_created_at matching))
      in (devices, total))"

text \<open>\<open>UPDATE iot_devices SET is_online = :v, last_seen = :now WHERE id = :device_id
  RETURNING *\<close>, then \<open>scalar_one_or_none\<close> on the returned rows. \<open>now\<close> is the value of
  \<open>datetime.utcnow()\<close>.\<close>

definition update_device_status ::
  "db \<Rightarrow> int \<Rightarrow> bool \<Rightarrow> timestamp \<Rightarrow> error + (IoTDevice option \<times> db)" where
  "update_device_status s device_id is_online now =
     (let upd = (\<lambda>d. d\<lparr>d_is_online := Some is_online, d_last_seen := Some now\<rparr>);
          rows = map upd (filter (\<lambda>d. d_id d = device_id) (iot_devices s));
          s' = s\<lparr>iot_devices := map (\<lambda>d. if d_id d = device_id then upd d else d) (iot_devices s)\<rparr>
      in case scalar_one_or_none rows of
           Inl e \<Rightarrow> Inl e
         | Inr r \<Rightarrow> Inr (r, s'))"

text \<open>\<open>db.delete(db_device)\<close>: the relationship \<open>IoTDevice.readings\<close> is declared with
  \<open>cascade="all, delete-orphan"\<close> (and the foreign key with \<open>ondelete="CASCADE"\<close>), so the
  readings that reference the device are deleted with it.\<close>

definition delete_device :: "db \<Rightarrow> int \<Rightarrow> error + (bool \<times> db)" where
  "delete_device s device_id =
     (case get_device_by_id s device_id of
        Inl e \<Rightarrow> Inl e
      | Inr None \<Rightarrow> Inr (False, s)
      | Inr (Some db_device) \<Rightarrow>
          Inr (True,
               s\<lparr>iot_devices := filter (\<lambda>d. d_id d \<noteq> d_id db_device) (iot_devices s),
                 sensor_readings :=
                   filter (\<lambda>r. r_device_id r \<noteq> Some (d_id db_device)) (sensor_readings s)\<rparr>))"

text \<open>\<open>UPDATE iot_devices SET is_online = false WHERE is_online = true AND last_seen <
  :cutoff\<close>; the result is \<open>rowcount\<close>, the number of rows the statement matched. A null
  \<open>is_online\<close> or \<open>last_seen\<close> makes the condition null, and the row is not matched.\<close>

definition mark_offline_devices :: "db \<Rightarrow> timestamp \<Rightarrow> int \<Rightarrow> nat \<times> db" where
  "mark_offline_devices s now timeout_minutes =
     (let cutoff_time = now - timedelta_minutes timeout_minutes;
          matched = (\<lambda>d. d_is_online d = Some True \<and>
                          (case d_last_seen d of None \<Rightarrow> False | Some t \<Rightarrow> t < cutoff_time))
      in (length (filter matched (iot_devices s)),
          s\<lparr>iot_devices :=
               map (\<lambda>d. if matched d then d\<lparr>d_is_online := Some False\<rparr> else d) (iot_devices s)\<rparr>))"

text \<open>\<open>str(n)\<close> for a Python integer, as the f-string of \<open>create_device\<close> formats
  \<open>farm_id\<close>.\<close>

definition digit_char :: "nat \<Rightarrow> char" where
  "digit_char n = char_of (48 + n)"

function str_nat :: "nat \<Rightarrow> string" where
  "str_nat n = (if n < 10 then [digit_char n] else str_nat (n div 10) @ [digit_char (n mod 10)])"
  by pat_completeness auto
termination
  by (relation "measure (\<lambda>n. n)") auto

declare str_nat.simps [simp del]

definition str_int :: "int \<Rightarrow> string" where
  "str_int i = (if i < 0 then CHR ''-'' # str_nat (nat (- i)) else str_nat (nat i))"

text \<open>\<open>create_device\<close>: \<open>now_seen\<close> and \<open>now_created\<close> are the two reads of
  \<open>datetime.now(UTC)\<close>. \<open>db.flush()\<close> sends the INSERT, which the database rejects when
  the foreign key \<open>farm_id\<close> or one of the \<open>unique=True\<close> columns (\<open>device_id\<close>,
  \<open>mqtt_topic\<close>) is violated. The length bounds of the \<open>String\<close> columns are not
  represented.\<close>

definition create_device ::
  "db \<Rightarrow> IoTDeviceCreate \<Rightarrow> timestamp \<Rightarrow> timestamp \<Rightarrow> error + (IoTDevice \<times> db)" where
  "create_device s device_in now_seen now_created =
     (let mqtt_topic = (if truthy_str (dc_mqtt_topic device_in)
                        then (case dc_mqtt_topic device_in of Some t \<Rightarrow> t | None \<Rightarrow> [])
                        else ''farm/'' @ str_int (dc_farm_id device_in) @ ''/sensors'');
          db_device = \<lparr>d_id = device_seq s,
                       d_farm_id = dc_farm_id device_in,
                       d_device_id = dc_device_id device_in,
                       d_is_online = Some True,
                       d_last_seen = Some now_seen,
                       d_mqtt_topic = Some mqtt_topic,
                       d_created_at = now_created\<rparr>
      in if (\<forall>f \<in> set (farms s). f_id f \<noteq> dc_farm_id device_in)
            \<or> (\<exists>d \<in> set (iot_devices s). d_device_id d = dc_device_id device_in)
            \<or> (\<exists>d \<in> set (iot_devices s). d_mqtt_topic d = Some mqtt_topic)
         then Inl IntegrityError
         else Inr (db_device,
                   s\<lparr>iot_devices := iot_devices s @ [db_device],
                     device_seq := device_seq s + 1\<rparr>))"

text \<open>\<open>update_device\<close>: the loop over \<open>update_data.items()\<close> assigns each supplied field;
  the two fields are distinct attributes, so the order of the dictionary does not matter.
  \<open>db.flush()\<close> sends an UPDATE of the changed columns, which the database rejects when
  the new \<open>mqtt_topic\<close> is already another row's.\<close>

definition update_device ::
  "db \<Rightarrow> int \<Rightarrow> IoTDeviceUpdate \<Rightarrow> error + (IoTDevice option \<times> db)" where
  "update_device s device_id device_in =
     (case get_device_by_id s device_id of
        Inl e \<Rightarrow> Inl e
      | Inr None \<Rightarrow> Inr (None, s)
      | Inr (Some db_device) \<Rightarrow>
          (let d1 = (case du_is_online device_in of
                       None \<Rightarrow> db_device
                     | Some v \<Rightarrow> db_device\<lparr>d_is_online := v\<rparr>);
               d2 = (case du_mqtt_topic device_in of
                       None \<Rightarrow> d1
                     | Some v \<Rightarrow> d1\<lparr>d_mqtt_topic := v\<rparr>)
           in if d_mqtt_topic d2 \<noteq> d_mqtt_topic db_device \<and> d_mqtt_topic d2 \<noteq> None
                 \<and> (\<exists>d \<in> set (iot_devices s). d_mqtt_topic d = d_mqtt_topic d2)
              then Inl IntegrityError
              else Inr (Some d2,
                        s\<lparr>iot_devices :=
                             map (\<lambda>d. if d_id d = d_id db_device then d2 else d)
                                 (iot_devices s)\<rparr>)))"

section \<open>Sensor reading CRUD (src/iot\_crud.py)\<close>

text \<open>\<open>create_sensor_reading\<close>: \<open>now_ts\<close> is the read of \<open>datetime.now(UTC)\<close> stored in the
  reading, \<open>now_seen\<close> the read of \<open>datetime.utcnow()\<close> in \<open>update_device_status\<close>. The INSERT
  is rejected when the foreign key \<open>device_id\<close> references no device.\<close>

definition create_sensor_reading ::
  "db \<Rightarrow> SensorReadingCreate \<Rightarrow> timestamp \<Rightarrow> timestamp \<Rightarrow> error + (SensorReading \<times> db)" where
  "create_sensor_reading s reading_in now_ts now_seen =
     (let db_reading = \<lparr>r_id = reading_seq s,
                        r_device_id = Some (rc_device_id reading_in),
                        r_timestamp = now_ts,
                        r_feed_rate = rc_feed_rate reading_in,
                        r_water_intake = rc_water_intake reading_in,
                        r_temperature = rc_temperature reading_in,
                        r_humidity = rc_humidity reading_in,
                        r_avg_weight = rc_avg_weight reading_in,
                        r_ammonia_level = rc_ammonia_level reading_in,
                        r_lux_level = rc_lux_level reading_in\<rparr>
      in if (\<forall>d \<in> set (iot_devices s). d_id d \<noteq> rc_device_id reading_in)
         then Inl IntegrityError
         else (case update_device_status
                      (s\<lparr>sensor_readings := sensor_readings s @ [db_reading],
                         reading_seq := reading_seq s + 1\<rparr>)
                      (rc_device_id reading_in) True now_seen of
                 Inl e \<Rightarrow> Inl e
               | Inr (_, s') \<Rightarrow> Inr (db_reading, s')))"

definition get_latest_reading :: "db \<Rightarrow> int \<Rightarrow> error + SensorReading option" where
  "get_latest_reading s device_id =
     scalar_one_or_none
       (take 1 (order_by_desc r_timestamp
                  (filter (\<lambda>r. r_device_id r = Some device_id) (sensor_readings s))))"

text \<open>\<open>get_readings_by_device\<close>: \<open>now\<close> is the read of \<open>datetime.utcnow()\<close>, made only when
  \<open>hours_back\<close> is given.\<close>

definition get_readings_by_device ::
  "db \<Rightarrow> int \<Rightarrow> int option \<Rightarrow> nat \<Rightarrow> timestamp \<Rightarrow> SensorReading list" where
  "get_readings_by_device s device_id hours_back limit now =
     (let of_device = filter (\<lambda>r. r_device_id r = Some device_id) (sensor_readings s);
          in_window = (case hours_back of
                         None \<Rightarrow> of_device
                       | Some h \<Rightarrow>
                           filter (\<lambda>r. r_timestamp r \<ge> now - timedelta_hours h) of_device)
      in take limit (order_by_desc r_timestamp in_window))"

definition get_readings_by_farm ::
  "db \<Rightarrow> int \<Rightarrow> int option \<Rightarrow> nat \<Rightarrow> timestamp \<Rightarrow> SensorReading list" where
  "get_readings_by_farm s farm_id hours_back limit now =
     (let device_ids = map d_id (filter (\<lambda>d. d_farm_id d = farm_id) (iot_devices s))
      in if device_ids = [] then []
         else
           (let of_farm = filter (\<lambda>r. case r_device_id r of
                                         None \<Rightarrow> False
                                       | Some i \<Rightarrow> i \<in> set device_ids) (sensor_readings s);
                in_window = (case hours_back of
                               None \<Rightarrow> of_farm
                             | Some h \<Rightarrow>
                                 filter (\<lambda>r. r_timestamp r \<ge> now - timedelta_hours h) of_farm)
            in take limit (order_by_desc r_timestamp in_window)))"

subsection \<open>Statistics\<close>

text \<open>SQL aggregates skip nulls, and give null when no non-null value is left.\<close>

fun non_null :: "'a option list \<Rightarrow> 'a list" where
  "non_null [] = []"
| "non_null (None # xs) = non_null xs"
| "non_null (Some v # xs) = v # non_null xs"

definition sql_avg :: "real option list \<Rightarrow> real option" where
  "sql_avg col =
     (case non_null col of
        [] \<Rightarrow> None
      | v # vs \<Rightarrow> Some (sum_list (v # vs) / real (length (v # vs))))"

definition sql_min :: "real option list \<Rightarrow> real option" where
  "sql_min col = (case non_null col of [] \<Rightarrow> None | v # vs \<Rightarrow> Some (fold min vs v))"

definition sql_max :: "real option list \<Rightarrow> real option" where
  "sql_max col = (case non_null col of [] \<Rightarrow> None | v # vs \<Rightarrow> Some (fold max vs v))"

text \<open>\<open>float(x) if x else None\<close>: the condition is Python's truth value of \<open>x\<close>, which is
  false for \<open>None\<close> and for zero.\<close>

definition float_if_truthy :: "real option \<Rightarrow> real option" where
  "float_if_truthy x = (case x of None \<Rightarrow> None | Some v \<Rightarrow> if v \<noteq> 0 then Some v else None)"

record ReadingStats =
  readings_count :: nat
  avg_temperature :: "real option"
  min_temperature :: "real option"
  max_temperature :: "real option"
  avg_humidity :: "real option"
  avg_feed_rate :: "real option"
  avg_water_intake :: "real option"
  avg_weight :: "real option"
  avg_ammonia_level :: "real option"
  avg_lux_level :: "real option"
  hours_back :: int

text \<open>The rows the aggregate query of \<open>get_reading_stats\<close> ranges over.\<close>

definition stats_window :: "db \<Rightarrow> int \<Rightarrow> int \<Rightarrow> timestamp \<Rightarrow> SensorReading list" where
  "stats_window s device_id hrs now =
     filter (\<lambda>r. r_device_id r = Some device_id \<and> r_timestamp r \<ge> now - timedelta_hours hrs)
            (sensor_readings s)"

definition get_reading_stats :: "db \<Rightarrow> int \<Rightarrow> int \<Rightarrow> timestamp \<Rightarrow> ReadingStats" where
  "get_reading_stats s device_id hrs now =
     (let rows = stats_window s device_id hrs now
      in \<lparr>readings_count = length rows,
          avg_temperature = float_if_truthy (sql_avg (map r_temperature rows)),
          min_temperature = float_if_truthy (sql_min (map r_temperature rows)),
          max_temperature = float_if_truthy (sql_max (map r_temperature rows)),
          avg_humidity = float_if_truthy (sql_avg (map r_humidity rows)),
          avg_feed_rate = float_if_truthy (sql_avg (map r_feed_rate rows)),
          avg_water_intake = float_if_truthy (sql_avg (map r_water_intake rows)),
          avg_weight = float_if_truthy (sql_avg (map r_avg_weight rows)),
          avg_ammonia_level = float_if_truthy (sql_avg (map r_ammonia_level rows)),
          avg_lux_level = float_if_truthy (sql_avg (map r_lux_level rows)),
          hours_back = hrs\<rparr>)"

section \<open>HTTP handlers (src/iot\_api.py)\<close>

text \<open>
  A handler takes the database and gives back its response, or the exception it raised,
  together with the database it leaves. A handler that raises has not committed, and the
  session is discarded: the database is the one it started from.
  \<open>current_user\<close> is the authenticated caller that \<open>get_current_user\<close> supplies.
\<close>

text \<open>
  Modelled from the spec: \<open>farm_crud.get_farm_by_id(db, farm_id, owner_id)\<close> is not among
  the sources. It is the ownership check \<open>verify_farm_owner(farm_id, caller_id) \<rightarrow> Farm?\<close>:
  the farm with this id when the caller owns it, nothing otherwise.
\<close>

definition get_farm_by_id :: "db \<Rightarrow> int \<Rightarrow> int \<Rightarrow> Farm option" where
  "get_farm_by_id s farm_id owner_id =
     find (\<lambda>f. f_id f = farm_id \<and> f_owner_id f = owner_id) (farms s)"

record IoTDeviceWithReadings =
  wr_device :: IoTDevice
  wr_latest_reading :: "SensorReading option"
  wr_readings_count :: nat

record DeviceListResponse =
  lr_total :: nat
  lr_devices :: "IoTDeviceWithReadings list"
  lr_skip :: int
  lr_limit :: int
  lr_online_count :: int
  lr_offline_count :: int


text \<open>The loop that attaches the latest reading to each device of a page.\<close>

fun with_latest_reading :: "db \<Rightarrow> IoTDevice list \<Rightarrow> error + IoTDeviceWithReadings list" where
  "with_latest_reading s [] = Inr []"
| "with_latest_reading s (device # devices) =
     (case get_latest_reading s (d_id device) of
        Inl e \<Rightarrow> Inl e
      | Inr latest_reading \<Rightarrow>
          (case with_latest_reading s devices of
             Inl e \<Rightarrow> Inl e
           | Inr rest \<Rightarrow>
               Inr (\<lparr>wr_device = device,
                     wr_latest_reading = latest_reading,
                     wr_readings_count = 0\<rparr> # rest)))"

definition list_devices ::
  "db \<Rightarrow> int \<Rightarrow> int \<Rightarrow> bool \<Rightarrow> User \<Rightarrow> (error + DeviceListResponse) \<times> db" where
  "list_devices s skip limit online_only current_user =
     (if skip < 0 \<or> limit < 1 \<or> limit > 100 then (Inl RequestValidationError, s)
      else
        (case get_all_devices s online_only (nat skip) (nat limit) of
           (devices, total_count) \<Rightarrow>
             (case with_latest_reading s devices of
                Inl e \<Rightarrow> (Inl e, s)
              | Inr devices_with_readings \<Rightarrow>
                  (let online_count = int (length (filter (\<lambda>d. truthy_bool (d_is_online d)) devices));
                       offline_count = int (length devices) - online_count
                   in (Inr \<lparr>lr_total = total_count,
                            lr_devices = devices_with_readings,
                            lr_skip = skip,
                            lr_limit = limit,
                            lr_online_count = online_count,
                            lr_offline_count = offline_count\<rparr>, s)))))"

definition register_device ::
  "db \<Rightarrow> IoTDeviceCreate \<Rightarrow> User \<Rightarrow> timestamp \<Rightarrow> timestamp \<Rightarrow> (error + IoTDevice) \<times> db" where
  "register_device s device_in current_user now_seen now_created =
     (case get_farm_by_id s (dc_farm_id device_in) (u_id current_user) of
        None \<Rightarrow> (Inl (HTTPException 404 ''Farm not found or access denied''), s)
      | Some farm \<Rightarrow>
          (case get_device_by_device_id s (dc_device_id device_in) of
             Inl e \<Rightarrow> (Inl e, s)
           | Inr (Some existing_device) \<Rightarrow>
               (Inl (HTTPException 400
                       (''Device with ID '' @ dc_device_id device_in @ '' already exists'')), s)
           | Inr None \<Rightarrow>
               (case create_device s device_in now_seen now_created of
                  Inl e \<Rightarrow> (Inl e, s)
                | Inr (device, s') \<Rightarrow> (Inr device, s'))))"




text \<open>\<open>record_sensor_reading\<close> has no \<open>current_user\<close>: the endpoint is unauthenticated.\<close>

definition record_sensor_reading ::
  "db \<Rightarrow> SensorReadingCreate \<Rightarrow> timestamp \<Rightarrow> timestamp \<Rightarrow> (error + SensorReading) \<times> db" where
  "record_sensor_reading s reading_in now_ts now_seen =
     (case get_device_by_id s (rc_device_id reading_in) of
        Inl e \<Rightarrow> (Inl e, s)
      | Inr None \<Rightarrow> (Inl (HTTPException 404 ''Device not found''), s)
      | Inr (Some device) \<Rightarrow>
          (case create_sensor_reading s reading_in now_ts now_seen of
             Inl e \<Rightarrow> (Inl e, s)
           | Inr (reading, s') \<Rightarrow> (Inr reading, s')))"




definition check_offline_devices_endpoint ::
  "db \<Rightarrow> int \<Rightarrow> User \<Rightarrow> timestamp \<Rightarrow> (error + nat) \<times> db" where
  "check_offline_devices_endpoint s timeout_minutes current_user now =
     (if timeout_minutes < 5 \<or> timeout_minutes > 1440 then (Inl RequestValidationError, s)
      else if u_role current_user \<noteq> ''admin''
      then (Inl (HTTPException 403 ''Admin access required''), s)
      else (case mark_offline_devices s now timeout_minutes of
              (marked_offline, s') \<Rightarrow> (Inr marked_offline, s')))"

section \<open>Example data\<close>

text \<open>
  Two farms, owned by users 10 and 20. Three devices: \<open>dev_a\<close> and \<open>dev_b\<close> on farm 1,
  \<open>dev_c\<close> on farm 2 and offline. The present instant of the examples is
  \<open>t_now\<close>, three hours after instant 0. Device 1 has the readings of the spec's
  scenarios: one recorded two hours ago with temperature 20, one thirty minutes ago with
  temperature 30, one ten minutes ago without temperature. Device 2 has one reading, with
  temperature 0. The engine accepts the integers of 64 bits.
\<close>

definition t_now :: timestamp where
  "t_now = 10800000000"

definition dev_a :: IoTDevice where
  "dev_a = \<lparr>d_id = 1, d_farm_id = 1, d_device_id = ''IOT-0001-M'',
            d_is_online = Some True, d_last_seen = Some 0,
            d_mqtt_topic = Some ''farm/1/sensors'', d_created_at = 0\<rparr>"

definition dev_b :: IoTDevice where
  "dev_b = \<lparr>d_id = 2, d_farm_id = 1, d_device_id = ''IOT-0002-M'',
            d_is_online = Some True, d_last_seen = Some 9000000000,
            d_mqtt_topic = Some ''farm/1/b'', d_created_at = 10\<rparr>"

definition dev_c :: IoTDevice where
  "dev_c = \<lparr>d_id = 3, d_farm_id = 2, d_device_id = ''IOT-0003-M'',
            d_is_online = Some False, d_last_seen = Some 0,
            d_mqtt_topic = Some ''farm/2/sensors'', d_created_at = 20\<rparr>"

definition reading_of :: "int \<Rightarrow> int \<Rightarrow> timestamp \<Rightarrow> real option \<Rightarrow> SensorReading" where
  "reading_of i dev ts temp =
     \<lparr>r_id = i, r_device_id = Some dev, r_timestamp = ts,
      r_feed_rate = None, r_water_intake = None, r_temperature = temp,
      r_humidity = None, r_avg_weight = None, r_ammonia_level = None, r_lux_level = None\<rparr>"

definition example_db :: db where
  "example_db =
     \<lparr>iot_devices = [dev_a, dev_b, dev_c],
      sensor_readings = [reading_of 1 1 3600000000 (Some 20),
                         reading_of 2 1 9000000000 (Some 30),
                         reading_of 3 1 10200000000 None,
                         reading_of 4 2 10500000000 (Some 0)],
      farms = [\<lparr>f_id = 1, f_owner_id = 10\<rparr>, \<lparr>f_id = 2, f_owner_id = 20\<rparr>],
      device_seq = 4,
      reading_seq = 5,
      integer_bound = 9223372036854775808\<rparr>"

definition user_10 :: User where
  "user_10 = \<lparr>u_id = 10, u_role = ''farmer''\<rparr>"


section \<open>Liveness sweep\<close>

lemma matched_changes:
  "d_is_online (d::IoTDevice) = Some True \<Longrightarrow> d\<lparr>d_is_online := Some False\<rparr> \<noteq> d"
proof
  assume "d\<lparr>d_is_online := Some False\<rparr> = d"
  then have "d_is_online (d\<lparr>d_is_online := Some False\<rparr>) = d_is_online d"
    by (rule arg_cong)
  moreover assume "d_is_online d = Some True"
  ultimately show False by simp
qed

text \<open>
  C3. A sweep with clock value \<open>now\<close> keeps the table's rows in place; the row of a device
  that is online and whose \<open>last_seen\<close> is before \<open>now - timeout_minutes\<close> minutes becomes
  the same row with \<open>is_online = False\<close>; every other row is left as it was; no
  \<open>last_seen\<close> changes; the count returned is the number of rows that changed; the other
  tables are untouched.
\<close>

theorem mark_offline_devices_exact:
  "(case mark_offline_devices s now timeout_minutes of
      (n, s') \<Rightarrow>
        length (iot_devices s') = length (iot_devices s)
        \<and> (\<forall>i < length (iot_devices s).
              (if d_is_online (iot_devices s ! i) = Some True
                  \<and> (\<exists>t. d_last_seen (iot_devices s ! i) = Some t
                          \<and> t < now - timeout_minutes * 60000000)
               then iot_devices s' ! i = (iot_devices s ! i)\<lparr>d_is_online := Some False\<rparr>
               else iot_devices s' ! i = iot_devices s ! i)
              \<and> d_last_seen (iot_devices s' ! i) = d_last_seen (iot_devices s ! i))
        \<and> n = card {i. i < length (iot_devices s) \<and> iot_devices s' ! i \<noteq> iot_devices s ! i}
        \<and> sensor_readings s' = sensor_readings s
        \<and> farms s' = farms s)"
proof -
  define cutoff where "cutoff = now - timedelta_minutes timeout_minutes"
  define matched where
    "matched = (\<lambda>d::IoTDevice. d_is_online d = Some True \<and>
                    (case d_last_seen d of None \<Rightarrow> False | Some t \<Rightarrow> t < cutoff))"
  define upd where "upd = (\<lambda>d::IoTDevice. if matched d then d\<lparr>d_is_online := Some False\<rparr> else d)"
  have res: "mark_offline_devices s now timeout_minutes =
      (length (filter matched (iot_devices s)), s\<lparr>iot_devices := map upd (iot_devices s)\<rparr>)"
    unfolding mark_offline_devices_def Let_def matched_def upd_def cutoff_def by (rule refl)
  have cut: "cutoff = now - timeout_minutes * 60000000"
    by (simp add: cutoff_def timedelta_minutes_def)
  have m_iff: "matched d \<longleftrightarrow> d_is_online d = Some True
      \<and> (\<exists>t. d_last_seen d = Some t \<and> t < now - timeout_minutes * 60000000)" for d
    by (auto simp: matched_def cut split: option.splits)
  have ch: "upd d \<noteq> d \<longleftrightarrow> matched d" for d
    using matched_changes[of d] by (auto simp: upd_def matched_def)
  have ls: "d_last_seen (upd d) = d_last_seen d" for d
    by (simp add: upd_def)
  have cnt: "length (filter matched (iot_devices s)) =
      card {i. i < length (iot_devices s) \<and> map upd (iot_devices s) ! i \<noteq> iot_devices s ! i}"
  proof -
    have "{i. i < length (iot_devices s) \<and> map upd (iot_devices s) ! i \<noteq> iot_devices s ! i}
        = {i. i < length (iot_devices s) \<and> matched (iot_devices s ! i)}"
      by (rule Collect_cong, rule conj_cong) (simp_all add: ch)
    then show ?thesis by (simp add: length_filter_conv_card)
  qed
  have per: "\<forall>i < length (iot_devices s).
              (if d_is_online (iot_devices s ! i) = Some True
                  \<and> (\<exists>t. d_last_seen (iot_devices s ! i) = Some t
                          \<and> t < now - timeout_minutes * 60000000)
               then map upd (iot_devices s) ! i = (iot_devices s ! i)\<lparr>d_is_online := Some False\<rparr>
               else map upd (iot_devices s) ! i = iot_devices s ! i)
              \<and> d_last_seen (map upd (iot_devices s) ! i) = d_last_seen (iot_devices s ! i)"
  proof (intro allI impI)
    fix i assume i: "i < length (iot_devices s)"
    then have nth: "map upd (iot_devices s) ! i = upd (iot_devices s ! i)" by simp
    show "(if d_is_online (iot_devices s ! i) = Some True
                  \<and> (\<exists>t. d_last_seen (iot_devices s ! i) = Some t
                          \<and> t < now - timeout_minutes * 60000000)
               then map upd (iot_devices s) ! i = (iot_devices s ! i)\<lparr>d_is_online := Some False\<rparr>
               else map upd (iot_devices s) ! i = iot_devices s ! i)
              \<and> d_last_seen (map upd (iot_devices s) ! i) = d_last_seen (iot_devices s ! i)"
      unfolding nth using m_iff[of "iot_devices s ! i"] ls[of "iot_devices s ! i"]
      by (simp add: upd_def)
  qed
  have sel: "iot_devices (s\<lparr>iot_devices := map upd (iot_devices s)\<rparr>) = map upd (iot_devices s)"
    "sensor_readings (s\<lparr>iot_devices := map upd (iot_devices s)\<rparr>) = sensor_readings s"
    "farms (s\<lparr>iot_devices := map upd (iot_devices s)\<rparr>) = farms s"
    by simp_all
  show ?thesis
    unfolding res prod.case sel length_map by (intro conjI per cnt refl)
qed

lemma sweep_example:
  "mark_offline_devices example_db t_now 30 =
     (1, example_db\<lparr>iot_devices := [dev_a\<lparr>d_is_online := Some False\<rparr>, dev_b, dev_c]\<rparr>)"
  by (simp add: mark_offline_devices_def example_db_def dev_a_def dev_b_def dev_c_def t_now_def
        timedelta_minutes_def)

lemma sweep_example_again:
  "mark_offline_devices
     (example_db\<lparr>iot_devices := [dev_a\<lparr>d_is_online := Some False\<rparr>, dev_b, dev_c]\<rparr>) t_now 30
     = (0, example_db\<lparr>iot_devices := [dev_a\<lparr>d_is_online := Some False\<rparr>, dev_b, dev_c]\<rparr>)"
  by (simp add: mark_offline_devices_def example_db_def dev_a_def dev_b_def dev_c_def t_now_def
        timedelta_minutes_def)

theorem mark_offline_devices_exact_witness:
  "mark_offline_devices example_db t_now 30 =
     (1, example_db\<lparr>iot_devices := [dev_a\<lparr>d_is_online := Some False\<rparr>, dev_b, dev_c]\<rparr>)
   \<and> card {i. i < length (iot_devices example_db)
              \<and> [dev_a\<lparr>d_is_online := Some False\<rparr>, dev_b, dev_c] ! i
                  \<noteq> iot_devices example_db ! i} = 1"
  using mark_offline_devices_exact [of example_db t_now 30]
  unfolding sweep_example by simp

text \<open>
  C4, as stated, fails on the code: each run reads the clock, and a device can become
  stale between the two reads. In the example, \<open>dev_b\<close> was last seen exactly thirty
  minutes before \<open>t_now\<close>: the run at \<open>t_now\<close> leaves it online, the run one microsecond
  later marks it offline.
\<close>

theorem sweep_twice_counterexample:
  "fst (mark_offline_devices (snd (mark_offline_devices example_db t_now 30)) (t_now + 1) 30) = 1
   \<and> snd (mark_offline_devices (snd (mark_offline_devices example_db t_now 30)) (t_now + 1) 30)
       \<noteq> snd (mark_offline_devices example_db t_now 30)"
  by (simp add: mark_offline_devices_def example_db_def dev_a_def dev_b_def dev_c_def t_now_def
        timedelta_minutes_def)

lemma matched_after_sweep:
  "(d_is_online d' = Some True \<and> (case d_last_seen d' of None \<Rightarrow> False | Some t \<Rightarrow> t < c2))
     \<longleftrightarrow> d_is_online d = Some True \<and> (\<exists>t. d_last_seen d = Some t \<and> c1 \<le> t \<and> t < c2)"
  if "d' = (if d_is_online d = Some True
               \<and> (case d_last_seen d of None \<Rightarrow> False | Some t \<Rightarrow> t < c1)
            then d\<lparr>d_is_online := Some False\<rparr> else d)"
  for d d' :: IoTDevice and c1 c2 :: int
  using that by (auto split: option.splits)

text \<open>
  C4, amended. Two runs in succession with the same timeout and nothing in between, whose
  clock reads are \<open>now1\<close> and \<open>now2\<close>: the second run marks exactly the devices that were
  online before the first run and whose \<open>last_seen\<close> lies from \<open>now1 - timeout\<close> up to,
  but excluding, \<open>now2 - timeout\<close>. When it marks none it leaves the state of the first
  run unchanged, and it marks none when the second clock read is not later than the first.
\<close>

theorem sweep_twice:
  assumes r1: "mark_offline_devices s now1 tm = (n1, s1)"
      and r2: "mark_offline_devices s1 now2 tm = (n2, s2)"
  shows "n2 = length (filter (\<lambda>d. d_is_online d = Some True
                  \<and> (\<exists>t. d_last_seen d = Some t
                          \<and> now1 - tm * 60000000 \<le> t \<and> t < now2 - tm * 60000000))
                (iot_devices s))
         \<and> (n2 = 0 \<longrightarrow> s2 = s1)
         \<and> (now2 \<le> now1 \<longrightarrow> n2 = 0)"
proof -
  define c1 where "c1 = now1 - timedelta_minutes tm"
  define c2 where "c2 = now2 - timedelta_minutes tm"
  define matched where
    "matched = (\<lambda>c (d::IoTDevice). d_is_online d = Some True \<and>
                    (case d_last_seen d of None \<Rightarrow> False | Some t \<Rightarrow> t < c))"
  define upd where
    "upd = (\<lambda>c (d::IoTDevice). if matched c d then d\<lparr>d_is_online := Some False\<rparr> else d)"
  define newly where "newly = (\<lambda>d::IoTDevice. d_is_online d = Some True
                  \<and> (\<exists>t. d_last_seen d = Some t \<and> c1 \<le> t \<and> t < c2))"
  have unf: "mark_offline_devices s' now tm =
      (length (filter (matched (now - timedelta_minutes tm)) (iot_devices s')),
       s'\<lparr>iot_devices := map (upd (now - timedelta_minutes tm)) (iot_devices s')\<rparr>)" for s' now
    unfolding mark_offline_devices_def Let_def matched_def upd_def by (rule refl)
  from r1 have s1: "s1 = s\<lparr>iot_devices := map (upd c1) (iot_devices s)\<rparr>"
    by (simp add: unf c1_def)
  have ds1: "iot_devices s1 = map (upd c1) (iot_devices s)"
    by (simp add: s1)
  from r2 have n2: "n2 = length (filter (matched c2) (map (upd c1) (iot_devices s)))"
    and s2: "s2 = s1\<lparr>iot_devices := map (upd c2) (map (upd c1) (iot_devices s))\<rparr>"
    by (simp_all add: unf c2_def ds1)
  have after: "matched c2 (upd c1 d) \<longleftrightarrow> newly d" for d
    unfolding matched_def newly_def
    by (rule matched_after_sweep) (simp add: upd_def matched_def)
  have cnt: "n2 = length (filter newly (iot_devices s))"
    by (simp add: n2 filter_map o_def after)
  have same: "s2 = s1" if "n2 = 0"
  proof -
    from that cnt have "filter newly (iot_devices s) = []" by simp
    then have none: "\<not> newly d" if "d \<in> set (iot_devices s)" for d
      using that by (simp add: filter_empty_conv)
    have "map (upd c2) (map (upd c1) (iot_devices s)) = map (upd c1) (iot_devices s)"
    proof (rule map_idI)
      fix x assume "x \<in> set (map (upd c1) (iot_devices s))"
      then obtain d where d: "d \<in> set (iot_devices s)" and x: "x = upd c1 d" by auto
      from none[OF d] after[of d] have "\<not> matched c2 x" by (simp add: x)
      then show "upd c2 x = x" by (simp add: upd_def)
    qed
    then show ?thesis by (simp add: s2 ds1[symmetric])
  qed
  have early: "n2 = 0" if "now2 \<le> now1"
  proof -
    from that have "c2 \<le> c1" by (simp add: c1_def c2_def)
    then have "\<not> newly d" for d by (auto simp: newly_def)
    then show ?thesis by (simp add: cnt)
  qed
  show ?thesis
    using cnt same early unfolding newly_def c1_def c2_def timedelta_minutes_def by blast
qed

theorem sweep_twice_witness:
  "mark_offline_devices example_db t_now 30
     = (1, example_db\<lparr>iot_devices := [dev_a\<lparr>d_is_online := Some False\<rparr>, dev_b, dev_c]\<rparr>)
   \<and> mark_offline_devices
        (example_db\<lparr>iot_devices := [dev_a\<lparr>d_is_online := Some False\<rparr>, dev_b, dev_c]\<rparr>) t_now 30
     = (0, example_db\<lparr>iot_devices := [dev_a\<lparr>d_is_online := Some False\<rparr>, dev_b, dev_c]\<rparr>)
   \<and> (0::nat) = length (filter (\<lambda>d. d_is_online d = Some True
                  \<and> (\<exists>t. d_last_seen d = Some t
                          \<and> t_now - 30 * 60000000 \<le> t \<and> t < t_now - 30 * 60000000))
                (iot_devices example_db))"
  using sweep_example sweep_example_again sweep_twice [OF sweep_example sweep_example_again]
  by simp

section \<open>Lookups\<close>

lemma scalar_one_or_none_simps [simp]:
  "scalar_one_or_none [] = Inr None"
  "scalar_one_or_none [x] = Inr (Some x)"
  "scalar_one_or_none (x # y # zs) = Inl MultipleResultsFound"
  by (simp_all add: scalar_one_or_none_def)

lemma scalar_one_or_none_Some [simp]:
  "scalar_one_or_none rows = Inr (Some x) \<longleftrightarrow> rows = [x]"
  by (auto simp: scalar_one_or_none_def split: list.splits)

lemma scalar_one_or_none_None [simp]:
  "scalar_one_or_none rows = Inr None \<longleftrightarrow> rows = []"
  by (auto simp: scalar_one_or_none_def split: list.splits)

lemma in_integer_range_updates [simp]:
  "in_integer_range (s\<lparr>iot_devices := ds\<rparr>) i = in_integer_range s i"
  "in_integer_range (s\<lparr>sensor_readings := rs\<rparr>) i = in_integer_range s i"
  "in_integer_range (s\<lparr>reading_seq := n\<rparr>) i = in_integer_range s i"
  "in_integer_range (s\<lparr>device_seq := n\<rparr>) i = in_integer_range s i"
  by (simp_all add: in_integer_range_def)

lemma get_device_by_id_in_range:
  "get_device_by_id s i = Inr r \<Longrightarrow> in_integer_range s i"
  by (simp add: get_device_by_id_def split: if_splits)

lemma get_device_by_id_Some:
  "get_device_by_id s i = Inr (Some d)
     \<longleftrightarrow> in_integer_range s i \<and> filter (\<lambda>d. d_id d = i) (iot_devices s) = [d]"
  by (simp add: get_device_by_id_def)

lemma get_device_by_id_None:
  "get_device_by_id s i = Inr None
     \<longleftrightarrow> in_integer_range s i \<and> (\<forall>d \<in> set (iot_devices s). d_id d \<noteq> i)"
  by (simp add: get_device_by_id_def filter_empty_conv)

lemma get_device_by_id_SomeD:
  assumes "get_device_by_id s i = Inr (Some d)"
  shows "d \<in> set (iot_devices s)" and "d_id d = i"
proof -
  from assms have "filter (\<lambda>d. d_id d = i) (iot_devices s) = [d]"
    by (simp add: get_device_by_id_Some)
  then have "d \<in> set (filter (\<lambda>d. d_id d = i) (iot_devices s))" by simp
  then show "d \<in> set (iot_devices s)" and "d_id d = i" by simp_all
qed

lemma filter_id_map_upd:
  assumes "\<And>d. d_id (f d) = d_id (d::IoTDevice)"
  shows "filter (\<lambda>d. d_id d = i) (map (\<lambda>d. if d_id d = i then f d else d) ds)
           = map f (filter (\<lambda>d. d_id d = i) ds)"
  by (induction ds) (auto simp: assms)

lemma update_device_status_found:
  assumes "get_device_by_id s i = Inr (Some d)"
  shows "\<exists>s'. update_device_status s i b now
            = Inr (Some (d\<lparr>d_is_online := Some b, d_last_seen := Some now\<rparr>), s')
          \<and> get_device_by_id s' i = Inr (Some (d\<lparr>d_is_online := Some b, d_last_seen := Some now\<rparr>))
          \<and> sensor_readings s' = sensor_readings s"
proof -
  from assms have f: "filter (\<lambda>d. d_id d = i) (iot_devices s) = [d]"
    and rg: "in_integer_range s i"
    by (simp_all add: get_device_by_id_Some)
  show ?thesis
    by (simp add: update_device_status_def Let_def f rg get_device_by_id_def filter_id_map_upd)
qed

section \<open>Ingestion\<close>

text \<open>
  C2. When the device named by a reading exists, \<open>record_sensor_reading\<close> succeeds, and in
  the database it leaves the device is the same row with \<open>is_online = True\<close> and
  \<open>last_seen\<close> equal to the clock value read by \<open>update_device_status\<close> during the
  ingestion, whatever \<open>is_online\<close> was before. Conversely the ingestion succeeds only for
  an existing device.
\<close>

theorem record_sensor_reading_refreshes:
  "(get_device_by_id s (rc_device_id reading_in) = Inr (Some device) \<longrightarrow>
      (\<exists>reading s'.
          record_sensor_reading s reading_in now_ts now_seen = (Inr reading, s')
        \<and> create_sensor_reading s reading_in now_ts now_seen = Inr (reading, s')
        \<and> get_device_by_id s' (rc_device_id reading_in)
            = Inr (Some (device\<lparr>d_is_online := Some True, d_last_seen := Some now_seen\<rparr>))))
   \<and> ((\<exists>reading s'. record_sensor_reading s reading_in now_ts now_seen = (Inr reading, s')) \<longrightarrow>
      (\<exists>device. get_device_by_id s (rc_device_id reading_in) = Inr (Some device)))"
proof (intro conjI impI)
  assume ex: "get_device_by_id s (rc_device_id reading_in) = Inr (Some device)"
  define i where "i = rc_device_id reading_in"
  define db_reading where "db_reading = \<lparr>r_id = reading_seq s,
                        r_device_id = Some (rc_device_id reading_in),
                        r_timestamp = now_ts,
                        r_feed_rate = rc_feed_rate reading_in,
                        r_water_intake = rc_water_intake reading_in,
                        r_temperature = rc_temperature reading_in,
                        r_humidity = rc_humidity reading_in,
                        r_avg_weight = rc_avg_weight reading_in,
                        r_ammonia_level = rc_ammonia_level reading_in,
                        r_lux_level = rc_lux_level reading_in\<rparr>"
  define s1 where "s1 = s\<lparr>sensor_readings := sensor_readings s @ [db_reading],
                         reading_seq := reading_seq s + 1\<rparr>"
  have ex1: "get_device_by_id s1 i = Inr (Some device)"
    using ex by (simp add: get_device_by_id_Some s1_def i_def)
  from update_device_status_found[OF ex1, of True now_seen]
  obtain s' where u: "update_device_status s1 i True now_seen
            = Inr (Some (device\<lparr>d_is_online := Some True, d_last_seen := Some now_seen\<rparr>), s')"
    and g: "get_device_by_id s' i
            = Inr (Some (device\<lparr>d_is_online := Some True, d_last_seen := Some now_seen\<rparr>))"
    by blast
  have fk: "\<not> (\<forall>d \<in> set (iot_devices s). d_id d \<noteq> rc_device_id reading_in)"
    using get_device_by_id_SomeD[OF ex] by blast
  have c: "create_sensor_reading s reading_in now_ts now_seen = Inr (db_reading, s')"
    unfolding create_sensor_reading_def Let_def
    using fk u by (simp add: db_reading_def s1_def i_def)
  have r: "record_sensor_reading s reading_in now_ts now_seen = (Inr db_reading, s')"
    by (simp add: record_sensor_reading_def ex c)
  show "\<exists>reading s'.
          record_sensor_reading s reading_in now_ts now_seen = (Inr reading, s')
        \<and> create_sensor_reading s reading_in now_ts now_seen = Inr (reading, s')
        \<and> get_device_by_id s' (rc_device_id reading_in)
            = Inr (Some (device\<lparr>d_is_online := Some True, d_last_seen := Some now_seen\<rparr>))"
    using r c g unfolding i_def by blast
next
  assume "\<exists>reading s'. record_sensor_reading s reading_in now_ts now_seen = (Inr reading, s')"
  then show "\<exists>device. get_device_by_id s (rc_device_id reading_in) = Inr (Some device)"
    by (auto simp: record_sensor_reading_def split: sum.splits option.splits)
qed

lemma example_lookup_c: "get_device_by_id example_db 3 = Inr (Some dev_c)"
  by (simp add: get_device_by_id_def in_integer_range_def example_db_def dev_a_def dev_b_def
        dev_c_def)

theorem record_sensor_reading_refreshes_witness:
  "get_device_by_id example_db 3 = Inr (Some dev_c)
   \<and> d_is_online dev_c = Some False
   \<and> (\<exists>reading s'.
         record_sensor_reading example_db
           \<lparr>rc_device_id = 3, rc_feed_rate = None, rc_water_intake = None,
            rc_temperature = Some 28.5, rc_humidity = None, rc_avg_weight = None,
            rc_ammonia_level = None, rc_lux_level = None\<rparr> t_now (t_now + 1)
           = (Inr reading, s')
       \<and> get_device_by_id s' 3
           = Inr (Some (dev_c\<lparr>d_is_online := Some True, d_last_seen := Some (t_now + 1)\<rparr>)))"
  using example_lookup_c
    record_sensor_reading_refreshes [of example_db
      "\<lparr>rc_device_id = 3, rc_feed_rate = None, rc_water_intake = None,
        rc_temperature = Some 28.5, rc_humidity = None, rc_avg_weight = None,
        rc_ammonia_level = None, rc_lux_level = None\<rparr>" dev_c t_now "t_now + 1"]
  by (simp add: dev_c_def) blast

section \<open>Deleting a device\<close>

lemma get_latest_reading_Inr:
  "get_latest_reading s i =
     Inr (case order_by_desc r_timestamp
                 (filter (\<lambda>r. r_device_id r = Some i) (sensor_readings s)) of
            [] \<Rightarrow> None | r # _ \<Rightarrow> Some r)"
  by (simp add: get_latest_reading_def split: list.splits)

lemma get_latest_reading_None:
  "get_latest_reading s i = Inr None \<longleftrightarrow> (\<forall>r \<in> set (sensor_readings s). r_device_id r \<noteq> Some i)"
proof -
  define ys where "ys = order_by_desc r_timestamp
                 (filter (\<lambda>r. r_device_id r = Some i) (sensor_readings s))"
  have e: "ys = [] \<longleftrightarrow> filter (\<lambda>r. r_device_id r = Some i) (sensor_readings s) = []"
    unfolding ys_def order_by_desc_def by (metis length_0_conv length_sort)
  have "get_latest_reading s i = Inr None \<longleftrightarrow> ys = []"
    unfolding get_latest_reading_Inr ys_def[symmetric] by (cases ys) simp_all
  then show ?thesis
    by (simp add: e filter_empty_conv)
qed

text \<open>
  C7. \<open>delete_device\<close> on an id that no device has returns \<open>False\<close> and the database
  as it was. On the id of a device it returns \<open>True\<close>; afterwards no device has the id, no
  reading references it, and \<open>get_latest_reading\<close> for it finds nothing; every reading
  of another device (or of none) is kept, as often as it occurred, so the latest reading
  and the lookup of every other device are as before. \<open>True\<close> is returned only when the
  device existed.
\<close>

theorem delete_device_cascade:
  "(get_device_by_id s i = Inr None \<longrightarrow> delete_device s i = Inr (False, s))
   \<and> (get_device_by_id s i = Inr (Some d) \<longrightarrow>
        (\<exists>s'. delete_device s i = Inr (True, s')
           \<and> get_device_by_id s' i = Inr None
           \<and> (\<forall>r \<in> set (sensor_readings s'). r_device_id r \<noteq> Some i)
           \<and> get_latest_reading s' i = Inr None
           \<and> (\<forall>r. r_device_id r \<noteq> Some i \<longrightarrow>
                  count_list (sensor_readings s') r = count_list (sensor_readings s) r)
           \<and> (\<forall>j. j \<noteq> i \<longrightarrow> get_latest_reading s' j = get_latest_reading s j
                           \<and> get_device_by_id s' j = get_device_by_id s j)
           \<and> farms s' = farms s))
   \<and> (\<forall>s'. delete_device s i = Inr (True, s') \<longrightarrow>
         (\<exists>d. get_device_by_id s i = Inr (Some d)))"
proof (intro conjI impI allI)
  assume "get_device_by_id s i = Inr None"
  then show "delete_device s i = Inr (False, s)"
    by (simp add: delete_device_def)
next
  assume ex: "get_device_by_id s i = Inr (Some d)"
  define s' where "s' = s\<lparr>iot_devices := filter (\<lambda>x. d_id x \<noteq> i) (iot_devices s),
                 sensor_readings := filter (\<lambda>r. r_device_id r \<noteq> Some i) (sensor_readings s)\<rparr>"
  have di: "d_id d = i" using get_device_by_id_SomeD[OF ex] by simp
  have del: "delete_device s i = Inr (True, s')"
    by (simp add: delete_device_def ex di s'_def)
  have rg: "in_integer_range s i"
    using ex by (rule get_device_by_id_in_range)
  have gone: "get_device_by_id s' i = Inr None"
    by (simp add: get_device_by_id_None s'_def rg)
  have nor: "\<forall>r \<in> set (sensor_readings s'). r_device_id r \<noteq> Some i"
    by (simp add: s'_def)
  have lat: "get_latest_reading s' i = Inr None"
    using nor by (simp add: get_latest_reading_None)
  have cnt: "\<forall>r. r_device_id r \<noteq> Some i \<longrightarrow>
                  count_list (sensor_readings s') r = count_list (sensor_readings s) r"
  proof (intro allI impI)
    fix r :: SensorReading assume r: "r_device_id r \<noteq> Some i"
    have "count_list (filter (\<lambda>x. r_device_id x \<noteq> Some i) xs) r = count_list xs r" for xs
      using r by (induction xs) auto
    then show "count_list (sensor_readings s') r = count_list (sensor_readings s) r"
      by (simp add: s'_def)
  qed
  have oth: "\<forall>j. j \<noteq> i \<longrightarrow> get_latest_reading s' j = get_latest_reading s j
                           \<and> get_device_by_id s' j = get_device_by_id s j"
  proof (intro allI impI)
    fix j assume j: "j \<noteq> i"
    have f1: "filter (\<lambda>r. r_device_id r = Some j) (filter (\<lambda>r. r_device_id r \<noteq> Some i) xs)
               = filter (\<lambda>r. r_device_id r = Some j) xs" for xs :: "SensorReading list"
      using j by (induction xs) auto
    have f2: "filter (\<lambda>x. d_id x = j) (filter (\<lambda>x. d_id x \<noteq> i) xs)
               = filter (\<lambda>x. d_id x = j) xs" for xs :: "IoTDevice list"
      using j by (induction xs) auto
    show "get_latest_reading s' j = get_latest_reading s j
                           \<and> get_device_by_id s' j = get_device_by_id s j"
      by (simp add: get_latest_reading_def get_device_by_id_def s'_def f1 f2 del: filter_filter)
  qed
  have fa: "farms s' = farms s" by (simp add: s'_def)
  show "\<exists>s'. delete_device s i = Inr (True, s')
           \<and> get_device_by_id s' i = Inr None
           \<and> (\<forall>r \<in> set (sensor_readings s'). r_device_id r \<noteq> Some i)
           \<and> get_latest_reading s' i = Inr None
           \<and> (\<forall>r. r_device_id r \<noteq> Some i \<longrightarrow>
                  count_list (sensor_readings s') r = count_list (sensor_readings s) r)
           \<and> (\<forall>j. j \<noteq> i \<longrightarrow> get_latest_reading s' j = get_latest_reading s j
                           \<and> get_device_by_id s' j = get_device_by_id s j)
           \<and> farms s' = farms s"
    using del gone nor lat cnt oth fa by blast
next
  fix s' assume "delete_device s i = Inr (True, s')"
  then show "\<exists>d. get_device_by_id s i = Inr (Some d)"
    by (auto simp: delete_device_def split: sum.splits option.splits)
qed

lemma example_lookup_a: "get_device_by_id example_db 1 = Inr (Some dev_a)"
  by (simp add: get_device_by_id_def in_integer_range_def example_db_def dev_a_def dev_b_def
        dev_c_def)

lemma example_latest_a:
  "get_latest_reading example_db 1 = Inr (Some (reading_of 3 1 10200000000 None))"
  by (simp add: get_latest_reading_def example_db_def reading_of_def order_by_desc_def)

theorem delete_device_cascade_witness:
  "get_device_by_id example_db 1 = Inr (Some dev_a)
   \<and> get_latest_reading example_db 1 = Inr (Some (reading_of 3 1 10200000000 None))
   \<and> (\<exists>s'. delete_device example_db 1 = Inr (True, s')
           \<and> get_latest_reading s' 1 = Inr None
           \<and> get_latest_reading s' 2 = get_latest_reading example_db 2)
   \<and> get_device_by_id example_db 7 = Inr None
   \<and> delete_device example_db 7 = Inr (False, example_db)"
proof -
  have n: "get_device_by_id example_db 7 = Inr None"
    by (simp add: get_device_by_id_def in_integer_range_def example_db_def dev_a_def dev_b_def
        dev_c_def)
  from delete_device_cascade [of example_db 1 dev_a] example_lookup_a
  obtain s' where d: "delete_device example_db 1 = Inr (True, s')"
    and l: "get_latest_reading s' 1 = Inr None"
    and o: "\<forall>j. j \<noteq> 1 \<longrightarrow> get_latest_reading s' j = get_latest_reading example_db j
                           \<and> get_device_by_id s' j = get_device_by_id example_db j"
    by blast
  from o have "get_latest_reading s' 2 = get_latest_reading example_db 2" by simp
  with d l have "\<exists>s'. delete_device example_db 1 = Inr (True, s')
           \<and> get_latest_reading s' 1 = Inr None
           \<and> get_latest_reading s' 2 = get_latest_reading example_db 2" by blast
  moreover from delete_device_cascade [of example_db 7 dev_a] n
  have "delete_device example_db 7 = Inr (False, example_db)" by blast
  ultimately show ?thesis
    using example_lookup_a example_latest_a n by blast
qed

section \<open>Updating a device\<close>

lemma filter_id_replace:
  assumes "filter (\<lambda>x. d_id x = i) ds = [d]" and "d_id d' = i"
  shows "filter (\<lambda>x. d_id x = i) (map (\<lambda>x. if d_id x = i then d' else x) ds) = [d']"
proof -
  have "filter (\<lambda>x. d_id x = i) (map (\<lambda>x. if d_id x = i then d' else x) ds)
          = map (\<lambda>x. d') (filter (\<lambda>x. d_id x = i) ds)"
    using assms(2) by (induction ds) auto
  then show ?thesis by (simp add: assms(1))
qed

lemma filter_id_other:
  assumes "j \<noteq> i" and "d_id d' = i"
  shows "filter (\<lambda>x. d_id x = j) (map (\<lambda>x. if d_id x = i then d' else x) ds)
           = filter (\<lambda>x. d_id x = j) ds"
  using assms by (induction ds) auto

text \<open>
  C6. \<open>update_device\<close> on an id that no device has returns \<open>None\<close> and the database as
  it was. When it succeeds on an existing device, the row it returns and stores has
  \<open>is_online\<close> and \<open>mqtt_topic\<close> replaced where the request supplied them and equal to
  the old values where it did not; \<open>id\<close>, \<open>farm_id\<close>, \<open>device_id\<close>, \<open>last_seen\<close> and
  \<open>created_at\<close> are the old ones; every other device, the readings and the farms are
  unchanged. A request that does not supply \<open>mqtt_topic\<close> always succeeds on an existing
  device.
\<close>

theorem update_device_partial:
  "(get_device_by_id s i = Inr None \<longrightarrow> update_device s i device_in = Inr (None, s))
   \<and> (get_device_by_id s i = Inr (Some d) \<and> update_device s i device_in = Inr (r, s') \<longrightarrow>
        (\<exists>d'. r = Some d'
           \<and> d_is_online d' = (case du_is_online device_in of None \<Rightarrow> d_is_online d | Some v \<Rightarrow> v)
           \<and> d_mqtt_topic d' = (case du_mqtt_topic device_in of None \<Rightarrow> d_mqtt_topic d | Some v \<Rightarrow> v)
           \<and> d_id d' = d_id d \<and> d_farm_id d' = d_farm_id d \<and> d_device_id d' = d_device_id d
           \<and> d_last_seen d' = d_last_seen d \<and> d_created_at d' = d_created_at d
           \<and> get_device_by_id s' i = Inr (Some d')
           \<and> (\<forall>j. j \<noteq> i \<longrightarrow> get_device_by_id s' j = get_device_by_id s j)
           \<and> sensor_readings s' = sensor_readings s
           \<and> farms s' = farms s))
   \<and> (get_device_by_id s i = Inr (Some d) \<and> du_mqtt_topic device_in = None \<longrightarrow>
        (\<exists>d' s'. update_device s i device_in = Inr (Some d', s')))"
proof (intro conjI impI)
  assume "get_device_by_id s i = Inr None"
  then show "update_device s i device_in = Inr (None, s)"
    by (simp add: update_device_def)
next
  assume a: "get_device_by_id s i = Inr (Some d) \<and> update_device s i device_in = Inr (r, s')"
  define d1 where "d1 = (case du_is_online device_in of
                       None \<Rightarrow> d | Some v \<Rightarrow> d\<lparr>d_is_online := v\<rparr>)"
  define d2 where "d2 = (case du_mqtt_topic device_in of
                       None \<Rightarrow> d1 | Some v \<Rightarrow> d1\<lparr>d_mqtt_topic := v\<rparr>)"
  from a have ex: "get_device_by_id s i = Inr (Some d)" and up: "update_device s i device_in = Inr (r, s')"
    by simp_all
  have f: "filter (\<lambda>x. d_id x = i) (iot_devices s) = [d]"
    using ex by (simp add: get_device_by_id_Some)
  have di: "d_id d = i" using get_device_by_id_SomeD[OF ex] by simp
  have id2: "d_id d2 = i"
    by (simp add: d2_def d1_def di split: option.splits)
  have unf: "update_device s i device_in =
      (if d_mqtt_topic d2 \<noteq> d_mqtt_topic d \<and> d_mqtt_topic d2 \<noteq> None
            \<and> (\<exists>x \<in> set (iot_devices s). d_mqtt_topic x = d_mqtt_topic d2)
       then Inl IntegrityError
       else Inr (Some d2,
                 s\<lparr>iot_devices := map (\<lambda>x. if d_id x = i then d2 else x) (iot_devices s)\<rparr>))"
    unfolding update_device_def Let_def d2_def d1_def by (simp add: ex di)
  from up have r: "r = Some d2"
    and s': "s' = s\<lparr>iot_devices := map (\<lambda>x. if d_id x = i then d2 else x) (iot_devices s)\<rparr>"
    unfolding unf by (simp_all split: if_splits)
  have rg: "in_integer_range s i"
    using ex by (rule get_device_by_id_in_range)
  have g: "get_device_by_id s' i = Inr (Some d2)"
    by (simp add: get_device_by_id_def s' rg filter_id_replace[OF f id2])
  have o: "\<forall>j. j \<noteq> i \<longrightarrow> get_device_by_id s' j = get_device_by_id s j"
    by (simp add: get_device_by_id_def s' filter_id_other[OF _ id2])
  have fields: "d_is_online d2 = (case du_is_online device_in of None \<Rightarrow> d_is_online d | Some v \<Rightarrow> v)"
    "d_mqtt_topic d2 = (case du_mqtt_topic device_in of None \<Rightarrow> d_mqtt_topic d | Some v \<Rightarrow> v)"
    "d_id d2 = d_id d" "d_farm_id d2 = d_farm_id d" "d_device_id d2 = d_device_id d"
    "d_last_seen d2 = d_last_seen d" "d_created_at d2 = d_created_at d"
    by (simp_all add: d2_def d1_def split: option.splits)
  have t: "sensor_readings s' = sensor_readings s" "farms s' = farms s"
    by (simp_all add: s')
  show "\<exists>d'. r = Some d'
           \<and> d_is_online d' = (case du_is_online device_in of None \<Rightarrow> d_is_online d | Some v \<Rightarrow> v)
           \<and> d_mqtt_topic d' = (case du_mqtt_topic device_in of None \<Rightarrow> d_mqtt_topic d | Some v \<Rightarrow> v)
           \<and> d_id d' = d_id d \<and> d_farm_id d' = d_farm_id d \<and> d_device_id d' = d_device_id d
           \<and> d_last_seen d' = d_last_seen d \<and> d_created_at d' = d_created_at d
           \<and> get_device_by_id s' i = Inr (Some d')
           \<and> (\<forall>j. j \<noteq> i \<longrightarrow> get_device_by_id s' j = get_device_by_id s j)
           \<and> sensor_readings s' = sensor_readings s
           \<and> farms s' = farms s"
    using r fields g o t by blast
next
  assume a: "get_device_by_id s i = Inr (Some d) \<and> du_mqtt_topic device_in = None"
  then show "\<exists>d' s'. update_device s i device_in = Inr (Some d', s')"
    by (simp add: update_device_def Let_def split: option.splits)
qed

lemma example_lookup_7: "get_device_by_id example_db 7 = Inr None"
  by (simp add: get_device_by_id_def in_integer_range_def example_db_def dev_a_def dev_b_def
        dev_c_def)

lemma example_update_topic:
  "update_device example_db 1 \<lparr>du_is_online = None, du_mqtt_topic = Some (Some ''x'')\<rparr>
     = Inr (Some (dev_a\<lparr>d_mqtt_topic := Some ''x''\<rparr>),
            example_db\<lparr>iot_devices := [dev_a\<lparr>d_mqtt_topic := Some ''x''\<rparr>, dev_b, dev_c]\<rparr>)"
  by (simp add: update_device_def get_device_by_id_def in_integer_range_def example_db_def
        dev_a_def dev_b_def dev_c_def Let_def)

theorem update_device_partial_witness:
  "get_device_by_id example_db 1 = Inr (Some dev_a)
   \<and> d_is_online dev_a = Some True
   \<and> (\<exists>d' s'. update_device example_db 1 \<lparr>du_is_online = None, du_mqtt_topic = Some (Some ''x'')\<rparr>
                 = Inr (Some d', s')
             \<and> d_is_online d' = Some True
             \<and> d_mqtt_topic d' = Some ''x''
             \<and> get_device_by_id s' 1 = Inr (Some d'))
   \<and> get_device_by_id example_db 7 = Inr None
   \<and> update_device example_db 7 \<lparr>du_is_online = None, du_mqtt_topic = Some (Some ''x'')\<rparr>
       = Inr (None, example_db)"
proof -
  let ?u = "\<lparr>du_is_online = None, du_mqtt_topic = Some (Some ''x'')\<rparr>"
  let ?s' = "example_db\<lparr>iot_devices := [dev_a\<lparr>d_mqtt_topic := Some ''x''\<rparr>, dev_b, dev_c]\<rparr>"
  from update_device_partial [of example_db 1 ?u dev_a "Some (dev_a\<lparr>d_mqtt_topic := Some ''x''\<rparr>)" ?s']
    example_lookup_a example_update_topic
  obtain d' where "Some (dev_a\<lparr>d_mqtt_topic := Some ''x''\<rparr>) = Some d'"
    and "d_is_online d' = (case du_is_online ?u of None \<Rightarrow> d_is_online dev_a | Some v \<Rightarrow> v)"
    and "d_mqtt_topic d' = (case du_mqtt_topic ?u of None \<Rightarrow> d_mqtt_topic dev_a | Some v \<Rightarrow> v)"
    and "get_device_by_id ?s' 1 = Inr (Some d')"
    by blast
  then have "\<exists>d' s'. update_device example_db 1 ?u = Inr (Some d', s')
             \<and> d_is_online d' = Some True
             \<and> d_mqtt_topic d' = Some ''x''
             \<and> get_device_by_id s' 1 = Inr (Some d')"
    using example_update_topic by (simp add: dev_a_def)
  moreover from update_device_partial [of example_db 7 ?u dev_a None example_db] example_lookup_7
  have "update_device example_db 7 ?u = Inr (None, example_db)" by blast
  ultimately show ?thesis
    using example_lookup_a example_lookup_7 by (simp add: dev_a_def)
qed

section \<open>Access checks of the per-device handlers\<close>






section \<open>Registration\<close>

lemma get_device_by_device_id_Some:
  "get_device_by_device_id s x = Inr (Some d) \<longleftrightarrow> filter (\<lambda>d. d_device_id d = x) (iot_devices s) = [d]"
  by (simp add: get_device_by_device_id_def)

lemma scalar_one_or_none_distinct:
  assumes "distinct (map f rows)" and "x \<in> set rows"
  shows "scalar_one_or_none (filter (\<lambda>r. f r = f x) rows) = Inr (Some x)"
proof -
  have "filter (\<lambda>r. f r = f x) rows = [x]"
    using assms
  proof (induction rows)
    case Nil
    then show ?case by simp
  next
    case (Cons a rows)
    show ?case
    proof (cases "a = x")
      case True
      with Cons.prems have "f x \<notin> f ` set rows" by simp
      then have "\<forall>r \<in> set rows. f r \<noteq> f x"
        by (metis imageI)
      then have "filter (\<lambda>r. f r = f x) rows = []"
        by (simp add: filter_empty_conv)
      with True show ?thesis by simp
    next
      case False
      with Cons.prems have x: "x \<in> set rows" and d: "distinct (map f rows)" by simp_all
      from Cons.prems x have "f a \<noteq> f x" by (auto simp: image_iff)
      with Cons.IH[OF d x] show ?thesis by simp
    qed
  qed
  then show ?thesis by simp
qed

text \<open>
  C5, as stated, fails on the code: the handler checks the ownership of the target farm
  before it looks for the duplicate. User 10 registering the existing hardware id
  \<open>IOT-0001-M\<close> on farm 2, which user 20 owns, gets 404, not the conflict.
\<close>

theorem register_device_counterexample:
  "register_device example_db
     \<lparr>dc_farm_id = 2, dc_device_id = ''IOT-0001-M'', dc_mqtt_topic = None\<rparr> user_10 t_now t_now
   = (Inl (HTTPException 404 ''Farm not found or access denied''), example_db)"
  by (simp add: register_device_def get_farm_by_id_def example_db_def user_10_def)

text \<open>
  C5, amended. A registration whose \<open>device_id\<close> is that of a registered device never
  creates a device: the handler raises and leaves the database as it was. When the caller
  owns the target farm the exception is the conflict (status 400), whichever farm the
  registered device belongs to; when the caller does not own the target farm it is 404.
  The conflict case takes the table to satisfy the \<open>unique=True\<close> constraint of
  \<open>device_id\<close>.
\<close>

theorem register_device_duplicate:
  assumes "existing \<in> set (iot_devices s)"
      and "d_device_id existing = dc_device_id device_in"
  shows "(\<exists>e. register_device s device_in u now_seen now_created = (Inl e, s))
       \<and> (get_farm_by_id s (dc_farm_id device_in) (u_id u) = None \<longrightarrow>
            register_device s device_in u now_seen now_created
              = (Inl (HTTPException 404 ''Farm not found or access denied''), s))
       \<and> (get_farm_by_id s (dc_farm_id device_in) (u_id u) \<noteq> None
            \<and> distinct (map d_device_id (iot_devices s)) \<longrightarrow>
            register_device s device_in u now_seen now_created
              = (Inl (HTTPException 400
                        (''Device with ID '' @ dc_device_id device_in @ '' already exists'')), s))"
proof -
  have ne: "filter (\<lambda>d. d_device_id d = dc_device_id device_in) (iot_devices s) \<noteq> []"
    using assms by (auto simp: filter_empty_conv)
  then have notnone: "get_device_by_device_id s (dc_device_id device_in) \<noteq> Inr None"
    by (simp add: get_device_by_device_id_def)
  have fail: "\<exists>e. register_device s device_in u now_seen now_created = (Inl e, s)"
    using notnone
    by (auto simp: register_device_def split: option.splits sum.splits)
  have nf: "register_device s device_in u now_seen now_created
              = (Inl (HTTPException 404 ''Farm not found or access denied''), s)"
    if "get_farm_by_id s (dc_farm_id device_in) (u_id u) = None"
    using that by (simp add: register_device_def)
  have cf: "register_device s device_in u now_seen now_created
              = (Inl (HTTPException 400
                        (''Device with ID '' @ dc_device_id device_in @ '' already exists'')), s)"
    if own: "get_farm_by_id s (dc_farm_id device_in) (u_id u) \<noteq> None"
      and dist: "distinct (map d_device_id (iot_devices s))"
  proof -
    from scalar_one_or_none_distinct[OF dist assms(1)] assms(2)
    have "get_device_by_device_id s (dc_device_id device_in) = Inr (Some existing)"
      by (simp add: get_device_by_device_id_def)
    with own show ?thesis
      by (auto simp: register_device_def split: option.splits)
  qed
  show ?thesis using fail nf cf by blast
qed

theorem register_device_duplicate_witness:
  "dev_a \<in> set (iot_devices example_db)
   \<and> d_device_id dev_a = dc_device_id \<lparr>dc_farm_id = 1, dc_device_id = ''IOT-0001-M'', dc_mqtt_topic = None\<rparr>
   \<and> get_farm_by_id example_db 1 (u_id user_10) \<noteq> None
   \<and> distinct (map d_device_id (iot_devices example_db))
   \<and> register_device example_db
        \<lparr>dc_farm_id = 1, dc_device_id = ''IOT-0001-M'', dc_mqtt_topic = None\<rparr> user_10 t_now t_now
      = (Inl (HTTPException 400 ''Device with ID IOT-0001-M already exists''), example_db)
   \<and> d_device_id dev_c = dc_device_id \<lparr>dc_farm_id = 1, dc_device_id = ''IOT-0003-M'', dc_mqtt_topic = None\<rparr>
   \<and> register_device example_db
        \<lparr>dc_farm_id = 1, dc_device_id = ''IOT-0003-M'', dc_mqtt_topic = None\<rparr> user_10 t_now t_now
      = (Inl (HTTPException 400 ''Device with ID IOT-0003-M already exists''), example_db)"
proof -
  have a: "dev_a \<in> set (iot_devices example_db)" "dev_c \<in> set (iot_devices example_db)"
    by (simp_all add: example_db_def)
  have ia: "d_device_id dev_a = dc_device_id \<lparr>dc_farm_id = 1, dc_device_id = ''IOT-0001-M'', dc_mqtt_topic = None\<rparr>"
    by (simp add: dev_a_def)
  have ic: "d_device_id dev_c = dc_device_id \<lparr>dc_farm_id = 1, dc_device_id = ''IOT-0003-M'', dc_mqtt_topic = None\<rparr>"
    by (simp add: dev_c_def)
  have own: "get_farm_by_id example_db 1 (u_id user_10) \<noteq> None"
    by (simp add: get_farm_by_id_def example_db_def user_10_def)
  have dist: "distinct (map d_device_id (iot_devices example_db))"
    by (simp add: example_db_def dev_a_def dev_b_def dev_c_def)
  show ?thesis
    using a ia ic own dist
      register_device_duplicate [OF a(1) ia, of user_10 t_now t_now]
      register_device_duplicate [OF a(2) ic, of user_10 t_now t_now]
    by simp
qed

section \<open>Listing devices\<close>

lemma get_latest_reading_total: "\<exists>r. get_latest_reading s i = Inr r"
  by (simp add: get_latest_reading_Inr)

lemma with_latest_reading_total:
  "\<exists>ws. with_latest_reading s devices = Inr ws \<and> map wr_device ws = devices"
proof (induction devices)
  case Nil
  then show ?case by simp
next
  case (Cons d devices)
  then obtain ws where ws: "with_latest_reading s devices = Inr ws" "map wr_device ws = devices"
    by blast
  obtain r where r: "get_latest_reading s (d_id d) = Inr r"
    using get_latest_reading_total by blast
  show ?case by (simp add: ws r)
qed

lemma page_le_total:
  "length (take limit (drop skip (order_by_desc key xs))) \<le> length xs"
  by (simp add: order_by_desc_def)

text \<open>
  C10. \<open>list_devices\<close> answers every request whose \<open>skip\<close> and \<open>limit\<close> are within their
  bounds. In its response \<open>online_count\<close> is the number of devices of the returned page
  whose \<open>is_online\<close> is true, and \<open>online_count + offline_count\<close> is the length of the
  page; the page is the one \<open>get_all_devices\<close> cut out with \<open>skip\<close> and \<open>limit\<close>,
  \<open>total\<close> is the size of the filtered set before the cut, and the page is never longer
  than \<open>total\<close> or \<open>limit\<close>. The example after the theorem is a page of one device out
  of a total of three.
\<close>

theorem list_devices_counts:
  "(0 \<le> skip \<and> 1 \<le> limit \<and> limit \<le> 100 \<longrightarrow>
      (\<exists>resp. list_devices s skip limit online_only u = (Inr resp, s)))
   \<and> (list_devices s skip limit online_only u = (Inr resp, s') \<longrightarrow>
        lr_online_count resp + lr_offline_count resp = int (length (lr_devices resp))
      \<and> lr_online_count resp
          = int (length (filter (\<lambda>w. d_is_online (wr_device w) = Some True) (lr_devices resp)))
      \<and> map wr_device (lr_devices resp) = fst (get_all_devices s online_only (nat skip) (nat limit))
      \<and> lr_total resp
          = length (filter (\<lambda>d. online_only \<longrightarrow> d_is_online d = Some True) (iot_devices s))
      \<and> length (lr_devices resp) \<le> lr_total resp
      \<and> length (lr_devices resp) \<le> nat limit)"
proof (intro conjI impI)
  assume v: "0 \<le> skip \<and> 1 \<le> limit \<and> limit \<le> 100"
  obtain devices n where g: "get_all_devices s online_only (nat skip) (nat limit) = (devices, n)"
    by (cases "get_all_devices s online_only (nat skip) (nat limit)")
  obtain ws where "with_latest_reading s devices = Inr ws"
    using with_latest_reading_total by blast
  with v g show "\<exists>resp. list_devices s skip limit online_only u = (Inr resp, s)"
    by (simp add: list_devices_def Let_def)
next
  assume a: "list_devices s skip limit online_only u = (Inr resp, s')"
  define matching where "matching = (if online_only
                      then filter (\<lambda>d. d_is_online d = Some True) (iot_devices s)
                      else iot_devices s)"
  define devices where "devices = take (nat limit) (drop (nat skip) (order_by_desc d_created_at matching))"
  have g: "get_all_devices s online_only (nat skip) (nat limit) = (devices, length matching)"
    by (simp add: get_all_devices_def Let_def devices_def matching_def)
  obtain ws where ws: "with_latest_reading s devices = Inr ws" "map wr_device ws = devices"
    using with_latest_reading_total by blast
  from a have resp: "resp = \<lparr>lr_total = length matching,
                            lr_devices = ws,
                            lr_skip = skip,
                            lr_limit = limit,
                            lr_online_count = int (length (filter (\<lambda>d. truthy_bool (d_is_online d)) devices)),
                            lr_offline_count = int (length devices)
                               - int (length (filter (\<lambda>d. truthy_bool (d_is_online d)) devices))\<rparr>"
    by (simp add: list_devices_def Let_def g ws split: if_splits)
  have len: "length ws = length devices"
    using ws(2) by (metis length_map)
  have onl: "length (filter (\<lambda>d. truthy_bool (d_is_online d)) devices)
      = length (filter (\<lambda>w. d_is_online (wr_device w) = Some True) ws)"
  proof -
    have "filter (\<lambda>d. truthy_bool (d_is_online d)) (map wr_device ws)
        = map wr_device (filter (\<lambda>w. d_is_online (wr_device w) = Some True) ws)"
      by (simp add: filter_map o_def truthy_bool_def)
    then show ?thesis by (metis length_map ws(2))
  qed
  have tot: "length matching
      = length (filter (\<lambda>d. online_only \<longrightarrow> d_is_online d = Some True) (iot_devices s))"
    by (simp add: matching_def)
  have le1: "length devices \<le> length matching"
    unfolding devices_def by (rule page_le_total)
  have le2: "length devices \<le> nat limit"
    by (simp add: devices_def)
  note le = le1 le2
  show "lr_online_count resp + lr_offline_count resp = int (length (lr_devices resp))"
    by (simp add: resp len)
  show "lr_online_count resp
          = int (length (filter (\<lambda>w. d_is_online (wr_device w) = Some True) (lr_devices resp)))"
    by (simp add: resp onl)
  show "map wr_device (lr_devices resp) = fst (get_all_devices s online_only (nat skip) (nat limit))"
    by (simp add: resp ws g)
  show "lr_total resp
          = length (filter (\<lambda>d. online_only \<longrightarrow> d_is_online d = Some True) (iot_devices s))"
    using tot by (simp add: resp)
  show "length (lr_devices resp) \<le> lr_total resp"
    using le by (simp add: resp len)
  show "length (lr_devices resp) \<le> nat limit"
    using le by (simp add: resp len)
qed

lemma example_first_page: "fst (get_all_devices example_db False (nat 0) (nat 1)) = [dev_c]"
  by (simp add: get_all_devices_def order_by_desc_def example_db_def dev_a_def dev_b_def
        dev_c_def Let_def)

theorem list_devices_counts_witness:
  "\<exists>resp. list_devices example_db 0 1 False user_10 = (Inr resp, example_db)
      \<and> map wr_device (lr_devices resp) = [dev_c]
      \<and> lr_online_count resp + lr_offline_count resp = 1
      \<and> lr_total resp = 3"
proof -
  from list_devices_counts [of 0 1 example_db False user_10]
  obtain resp where r: "list_devices example_db 0 1 False user_10 = (Inr resp, example_db)"
    by auto
  from list_devices_counts [of 0 1 example_db False user_10 resp example_db] r
  have c: "lr_online_count resp + lr_offline_count resp = int (length (lr_devices resp))"
    and p: "map wr_device (lr_devices resp) = fst (get_all_devices example_db False (nat 0) (nat 1))"
    and t: "lr_total resp
          = length (filter (\<lambda>d. False \<longrightarrow> d_is_online d = Some True) (iot_devices example_db))"
    by blast+
  from p have p': "map wr_device (lr_devices resp) = [dev_c]"
    by (simp only: example_first_page)
  then have "length (lr_devices resp) = 1"
    by (metis length_map length_Cons list.size(3) One_nat_def)
  with c have c': "lr_online_count resp + lr_offline_count resp = 1" by simp
  from t have t': "lr_total resp = 3" by (simp add: example_db_def)
  show ?thesis
    by (rule exI[of _ resp]) (simp add: r p' c' t')
qed

section \<open>Listing the readings of a device\<close>

lemma order_by_desc_sorted:
  "sorted_wrt (\<lambda>a b. key b \<le> key a) (order_by_desc key rows)"
proof -
  have "sorted (map (\<lambda>r. - key r) (order_by_desc key rows))"
    unfolding order_by_desc_def by (rule sorted_sort_key)
  then show ?thesis
    by (simp add: sorted_map)
qed

lemma order_by_desc_mset [simp]: "mset (order_by_desc key rows) = mset rows"
  by (simp add: order_by_desc_def)

lemma order_by_desc_length [simp]: "length (order_by_desc key rows) = length rows"
  by (simp add: order_by_desc_def)

text \<open>
  C8. Let the window be the readings of the device whose timestamp is at least
  \<open>now - hours_back\<close> hours (all its readings when \<open>hours_back\<close> is not given). The
  result of \<open>get_readings_by_device\<close> is in descending order of timestamp; its length is
  the smaller of \<open>limit\<close> and the size of the window; it holds readings of the window
  only, each no more often than the window does, and all of them when the window fits the
  limit; a reading of the window that the cap leaves out is not newer than any returned
  one. In the example, with \<open>hours_back = 1\<close>, the reading recorded two hours ago is
  left out and the one recorded thirty minutes ago is returned.
\<close>

theorem get_readings_by_device_window:
  "(let in_window = filter (\<lambda>r. r_device_id r = Some i
                               \<and> (case hrs of None \<Rightarrow> True
                                   | Some h \<Rightarrow> now - h * 3600000000 \<le> r_timestamp r))
                           (sensor_readings s);
        rs = get_readings_by_device s i hrs limit now
    in sorted_wrt (\<lambda>a b. r_timestamp b \<le> r_timestamp a) rs
     \<and> length rs = min limit (length in_window)
     \<and> mset rs \<subseteq># mset in_window
     \<and> (length in_window \<le> limit \<longrightarrow> mset rs = mset in_window)
     \<and> (\<forall>r \<in># mset in_window - mset rs. \<forall>r' \<in> set rs. r_timestamp r \<le> r_timestamp r'))"
proof -
  define in_window where
    "in_window = filter (\<lambda>r. r_device_id r = Some i
                               \<and> (case hrs of None \<Rightarrow> True
                                   | Some h \<Rightarrow> now - h * 3600000000 \<le> r_timestamp r))
                           (sensor_readings s)"
  define srt where "srt = order_by_desc r_timestamp in_window"
  have rs: "get_readings_by_device s i hrs limit now = take limit srt"
    by (cases hrs)
       (simp_all add: get_readings_by_device_def Let_def srt_def in_window_def
          timedelta_hours_def conj_commute)
  have srt_sorted: "sorted_wrt (\<lambda>a b. r_timestamp b \<le> r_timestamp a) srt"
    unfolding srt_def by (rule order_by_desc_sorted)
  have split: "srt = take limit srt @ drop limit srt" by simp
  have m: "mset in_window = mset (take limit srt) + mset (drop limit srt)"
    by (metis split mset_append order_by_desc_mset srt_def)
  have s1: "sorted_wrt (\<lambda>a b. r_timestamp b \<le> r_timestamp a) (take limit srt)"
    using srt_sorted by (rule sorted_wrt_take)
  have s2: "length (take limit srt) = min limit (length in_window)"
    by (simp add: srt_def min.commute)
  have s3: "mset (take limit srt) \<subseteq># mset in_window"
    by (simp add: m)
  have s4: "mset (take limit srt) = mset in_window" if "length in_window \<le> limit"
    using that by (simp add: srt_def)
  have s5: "\<forall>r \<in># mset in_window - mset (take limit srt).
              \<forall>r' \<in> set (take limit srt). r_timestamp r \<le> r_timestamp r'"
  proof (intro ballI)
    fix r r' assume "r \<in># mset in_window - mset (take limit srt)"
      and r': "r' \<in> set (take limit srt)"
    then have r: "r \<in> set (drop limit srt)" by (simp add: m)
    from srt_sorted split
    have "sorted_wrt (\<lambda>a b. r_timestamp b \<le> r_timestamp a) (take limit srt @ drop limit srt)"
      by simp
    then show "r_timestamp r \<le> r_timestamp r'"
      using r r' unfolding sorted_wrt_append by blast
  qed
  show ?thesis
    unfolding Let_def in_window_def[symmetric] rs
    using s1 s2 s3 s4 s5 by blast
qed

lemma example_window:
  "filter (\<lambda>r. r_device_id r = Some 1
               \<and> (case Some 1 of None \<Rightarrow> True
                   | Some h \<Rightarrow> t_now - h * 3600000000 \<le> r_timestamp r))
          (sensor_readings example_db)
     = [reading_of 2 1 9000000000 (Some 30), reading_of 3 1 10200000000 None]"
  by (simp add: example_db_def reading_of_def t_now_def)

theorem get_readings_by_device_window_witness:
  "r_timestamp (reading_of 1 1 3600000000 (Some 20)) = t_now - 2 * 3600000000
   \<and> r_timestamp (reading_of 2 1 9000000000 (Some 30)) = t_now - 30 * 60000000
   \<and> reading_of 1 1 3600000000 (Some 20) \<in> set (sensor_readings example_db)
   \<and> reading_of 2 1 9000000000 (Some 30) \<in> set (sensor_readings example_db)
   \<and> reading_of 1 1 3600000000 (Some 20)
        \<notin> set (get_readings_by_device example_db 1 (Some 1) 100 t_now)
   \<and> reading_of 2 1 9000000000 (Some 30)
        \<in> set (get_readings_by_device example_db 1 (Some 1) 100 t_now)
   \<and> length (get_readings_by_device example_db 1 (Some 1) 100 t_now) = 2"
proof -
  let ?rs = "get_readings_by_device example_db 1 (Some 1) 100 t_now"
  from get_readings_by_device_window
         [where i = 1 and hrs = "Some 1" and now = t_now and s = example_db and limit = 100]
  have m: "mset ?rs = mset [reading_of 2 1 9000000000 (Some 30), reading_of 3 1 10200000000 None]"
    and l: "length ?rs = min 100 (length [reading_of 2 1 9000000000 (Some 30),
                                          reading_of 3 1 10200000000 None])"
    unfolding Let_def example_window by simp_all
  from m have "set ?rs = set [reading_of 2 1 9000000000 (Some 30), reading_of 3 1 10200000000 None]"
    by (rule mset_eq_setD)
  then have st: "set ?rs = {reading_of 2 1 9000000000 (Some 30), reading_of 3 1 10200000000 None}"
    by simp
  have "reading_of 1 1 3600000000 (Some 20) \<notin> set ?rs"
    unfolding st by (simp add: reading_of_def)
  moreover have "reading_of 2 1 9000000000 (Some 30) \<in> set ?rs"
    unfolding st by simp
  moreover from l have "length ?rs = 2" by simp
  ultimately show ?thesis
    by (simp add: example_db_def reading_of_def t_now_def)
qed

section \<open>Statistics of a device\<close>

text \<open>
  What \<open>get_reading_stats\<close> reports: the count is the number of readings in the window,
  whatever fields they carry; an average is reported as absent when the window has no
  non-null sample of the metric, and also when the samples sum to zero. The spec's
  scenario (temperatures 20, 30 and null) gives average 25, minimum 20, maximum 30 and
  count 3.
\<close>

lemma sql_avg_None_iff: "sql_avg col = None \<longleftrightarrow> non_null col = []"
  by (simp add: sql_avg_def split: list.splits)

lemma float_if_truthy_avg_None_iff:
  "float_if_truthy (sql_avg col) = None
     \<longleftrightarrow> non_null col = [] \<or> sum_list (non_null col) = 0"
  by (auto simp: float_if_truthy_def sql_avg_def split: list.splits option.splits)

lemma get_reading_stats_count:
  "readings_count (get_reading_stats s i hrs now)
     = length (filter (\<lambda>r. r_device_id r = Some i \<and> now - hrs * 3600000000 \<le> r_timestamp r)
                 (sensor_readings s))"
  by (simp add: get_reading_stats_def stats_window_def timedelta_hours_def Let_def)

lemma example_stats_window_a:
  "stats_window example_db 1 24 t_now
     = [reading_of 1 1 3600000000 (Some 20), reading_of 2 1 9000000000 (Some 30),
        reading_of 3 1 10200000000 None]"
  by (simp add: stats_window_def example_db_def reading_of_def t_now_def timedelta_hours_def)

lemma get_reading_stats_scenario:
  "readings_count (get_reading_stats example_db 1 24 t_now) = 3
   \<and> avg_temperature (get_reading_stats example_db 1 24 t_now) = Some 25
   \<and> min_temperature (get_reading_stats example_db 1 24 t_now) = Some 20
   \<and> max_temperature (get_reading_stats example_db 1 24 t_now) = Some 30
   \<and> avg_humidity (get_reading_stats example_db 1 24 t_now) = None"
  by (simp add: get_reading_stats_def example_stats_window_a Let_def reading_of_def
        sql_avg_def sql_min_def sql_max_def float_if_truthy_def)

lemma example_stats_window_b:
  "stats_window example_db 2 24 t_now = [reading_of 4 2 10500000000 (Some 0)]"
  by (simp add: stats_window_def example_db_def reading_of_def t_now_def timedelta_hours_def)

text \<open>
  C1 does not hold of the code. The window of device 2 holds one reading, whose
  temperature is 0: one non-null sample, with average, minimum and maximum 0. The
  conditions \<open>if row.avg_temp\<close>, \<open>if row.min_temp\<close> and \<open>if row.max_temp\<close> test the truth
  value of the aggregate, which is false for zero as it is for \<open>None\<close>, and
  \<open>get_reading_stats\<close> reports the three as absent.
\<close>

theorem get_reading_stats_zero_absent:
  "map r_temperature (stats_window example_db 2 24 t_now) = [Some 0]
   \<and> sql_avg (map r_temperature (stats_window example_db 2 24 t_now)) = Some 0
   \<and> readings_count (get_reading_stats example_db 2 24 t_now) = 1
   \<and> avg_temperature (get_reading_stats example_db 2 24 t_now) = None
   \<and> min_temperature (get_reading_stats example_db 2 24 t_now) = None
   \<and> max_temperature (get_reading_stats example_db 2 24 t_now) = None"
  by (simp add: get_reading_stats_def example_stats_window_b Let_def reading_of_def
        sql_avg_def sql_min_def sql_max_def float_if_truthy_def)

end
